theory Spec2Isabelle
  imports Complex_Main
begin

section \<open>The resilient fetcher of web_scraper.py\<close>

text \<open>
  A shallow embedding of the class \<open>CryptoDataFetcher\<close> of
  \<^verbatim>\<open>src/app/python/web_scraper/web_scraper.py\<close>: the retry loop
  \<open>fetch_with_retry\<close>, the price fetch \<open>fetch_crypto_prices\<close>, the shape check
  \<open>validate_price_data\<close> and \<open>fetch_additional_market_data\<close>.

  Everything the methods do besides returning a value is explicit. The observable
  effects (a call of \<open>session.get\<close>, a \<open>time.sleep\<close>, a \<open>print\<close>) are appended
  to a trace, in program order. The network is an oracle that gives the outcome of the
  n-th call of \<open>session.get\<close>. An exception that leaves a method is the \<open>Inl\<close> branch
  of its result.
\<close>

subsection \<open>JSON values and the Python operations applied to them\<close>

text \<open>
  What \<open>response.json()\<close> can return. A number stands for a Python \<open>int\<close> or
  \<open>float\<close>: the code applies to a number only operations that treat the two alike
  (truth value, and operations that raise for both). A dict is an association list
  read with \<open>map_of\<close>; a parsed object has no repeated key.
\<close>

datatype json =
    JNull
  | JBool bool
  | JNum rat
  | JStr string
  | JArr "json list"
  | JObj "(string \<times> json) list"

text \<open>The exceptions that can leave a method of the class.\<close>

datatype pyexn =
    TypeError
  | AttributeError
  | KeyError
  | ValueError
  | RecursionError
  | OverflowError
  | OtherException

text \<open>\<open>p in s\<close> for two Python strings: \<open>p\<close> occurs in \<open>s\<close> as a substring.\<close>

fun is_substring :: "string \<Rightarrow> string \<Rightarrow> bool" where
  "is_substring p [] = (p = [])"
| "is_substring p (c # cs) = (take (length p) (c # cs) = p \<or> is_substring p cs)"

text \<open>
  \<open>key in container\<close> for a string key: key membership for a dict, element
  membership for a list, substring test for a string, and
  \<open>TypeError: argument of type ... is not iterable\<close> for \<open>None\<close>, a bool or a number.
\<close>

fun py_in :: "string \<Rightarrow> json \<Rightarrow> pyexn + bool" where
  "py_in k (JObj kvs) = Inr (map_of kvs k \<noteq> None)"
| "py_in k (JArr xs) = Inr (JStr k \<in> set xs)"
| "py_in k (JStr s) = Inr (is_substring k s)"
| "py_in k JNull = Inl TypeError"
| "py_in k (JBool b) = Inl TypeError"
| "py_in k (JNum n) = Inl TypeError"

text \<open>The truth value of a parsed JSON value (\<open>bool(v)\<close>).\<close>

fun truthy :: "json \<Rightarrow> bool" where
  "truthy JNull = False"
| "truthy (JBool b) = b"
| "truthy (JNum n) = (n \<noteq> 0)"
| "truthy (JStr s) = (s \<noteq> [])"
| "truthy (JArr xs) = (xs \<noteq> [])"
| "truthy (JObj kvs) = (kvs \<noteq> [])"

text \<open>\<open>sep.join(xs)\<close>.\<close>

fun join :: "string \<Rightarrow> string list \<Rightarrow> string" where
  "join sep [] = []"
| "join sep [x] = x"
| "join sep (x # y # ys) = x @ sep @ join sep (y # ys)"

subsection \<open>The transport layer\<close>

text \<open>
  What \<open>response.json()\<close> does: it returns the parsed value; it raises a subclass of
  \<open>json.JSONDecodeError\<close> on a body that is not JSON (requests on the standard
  \<open>json\<close> module); or it raises something else, as the parser does with
  \<open>ValueError\<close> on an integer literal of more than 4300 digits and with
  \<open>RecursionError\<close> on a deeply nested body.
\<close>

datatype json_outcome =
    Parsed json
  | DecodeError
  | ParseRaised pyexn

text \<open>
  A \<open>requests.Response\<close>, as far as the class reads it: the status code, and what
  \<open>response.json()\<close> does.
\<close>

record response =
  status_code :: int
  json_body :: json_outcome

text \<open>
  \<open>response.raise_for_status()\<close> of the requests library raises \<open>HTTPError\<close> exactly
  for a 4xx or 5xx status code; \<open>bool(response)\<close> is \<open>response.ok\<close>, true exactly
  when \<open>raise_for_status\<close> would not raise.
\<close>

definition raises_for_status :: "response \<Rightarrow> bool" where
  "raises_for_status r = (400 \<le> status_code r \<and> status_code r < 600)"

definition response_ok :: "response \<Rightarrow> bool" where
  "response_ok r = (\<not> raises_for_status r)"


text \<open>The arguments of one \<open>session.get(url, params=params, timeout=timeout)\<close>.\<close>

record request =
  req_url :: string
  req_params :: "(string \<times> string) list option"
  req_timeout :: int

text \<open>
  What one call of \<open>session.get\<close> does: it returns a response, raises a subclass of
  \<open>requests.exceptions.RequestException\<close> (connection error, timeout, ...) with a
  message, or raises something else.
\<close>

datatype get_outcome =
    Responded response
  | RaisedRequestException string
  | RaisedOther

text \<open>Why an attempt was retried: the text of the caught exception.\<close>

datatype cause =
    Transport string
  | HttpStatus int

text \<open>The lines the class prints, by format string.\<close>

datatype message =
    AttemptFailed nat cause
  | RetryingIn int
  | AllAttemptsFailed int string
  | FetchingPrices string
  | InvalidPriceData
  | PriceParseFailed
  | MissingData string
  | MissingField string string
  | AdditionalParseFailed string

text \<open>
  The effects of the class. \<open>Sleep s\<close> is a call \<open>time.sleep(s)\<close> that returned; how
  long it took is not modelled.
\<close>

datatype event =
    Request request
  | Sleep int
  | Print message

text \<open>
  The world a method runs in: how many calls of \<open>session.get\<close> the session has made,
  and the effects so far.
\<close>

record world =
  calls :: nat
  trace :: "event list"

definition emit :: "event \<Rightarrow> world \<Rightarrow> world" where
  "emit e w = w\<lparr>trace := trace w @ [e]\<rparr>"

text \<open>
  The configuration \<open>__init__\<close> stores. The session and its two fixed headers are
  part of the network oracle.
\<close>

record fetcher =
  timeout :: int
  max_retries :: int

type_synonym network = "nat \<Rightarrow> request \<Rightarrow> get_outcome"

subsection \<open>fetch_with_retry\<close>

text \<open>
  The body of the \<open>try\<close> of one attempt: \<open>session.get\<close>, then
  \<open>raise_for_status\<close>. \<open>Retry\<close> is the \<open>except RequestException\<close> branch.
\<close>

datatype attempt_result =
    Success response
  | Retry cause
  | Propagate pyexn

fun attempt_once :: "get_outcome \<Rightarrow> attempt_result" where
  "attempt_once (Responded r) =
     (if raises_for_status r then Retry (HttpStatus (status_code r)) else Success r)"
| "attempt_once (RaisedRequestException m) = Retry (Transport m)"
| "attempt_once RaisedOther = Propagate OtherException"

definition the_request :: "fetcher \<Rightarrow> string \<Rightarrow> (string \<times> string) list option \<Rightarrow> request" where
  "the_request f url ps = \<lparr>req_url = url, req_params = ps, req_timeout = timeout f\<rparr>"

text \<open>
  \<open>time.sleep(s)\<close> raises \<open>OverflowError\<close> (timestamp too large) when \<open>s\<close>
  seconds do not fit the interpreter's clock, a signed 64-bit count of nanoseconds:
  the largest whole number of seconds it takes is \<open>(2 ^ 63 - 1) div 10 ^ 9\<close>. Of the
  backoff intervals, \<open>2 ^ 33\<close> is the last one below it.
\<close>

definition sleep_limit :: int where
  "sleep_limit = 9223372036"

text \<open>
  \<open>for attempt in range(self.max_retries)\<close>, from the given attempt on. The attempt
  index is a natural number; \<open>max_retries\<close> is any Python int. An exception raised
  by \<open>time.sleep\<close> inside the \<open>except\<close> handler leaves the method.
\<close>

function fetch_loop ::
  "network \<Rightarrow> fetcher \<Rightarrow> string \<Rightarrow> (string \<times> string) list option \<Rightarrow> nat \<Rightarrow> world
     \<Rightarrow> (pyexn + response option) \<times> world" where
  "fetch_loop net f url ps attempt w =
     (if int attempt < max_retries f then
        (let rq = the_request f url ps;
             w1 = emit (Request rq) (w\<lparr>calls := Suc (calls w)\<rparr>)
         in case attempt_once (net (calls w) rq) of
              Success r \<Rightarrow> (Inr (Some r), w1)
            | Propagate e \<Rightarrow> (Inl e, w1)
            | Retry c \<Rightarrow>
                (let wait_time = 2 ^ attempt;
                     w2 = emit (Print (AttemptFailed (attempt + 1) c)) w1
                 in if int attempt < max_retries f - 1
                    then (let w3 = emit (Print (RetryingIn wait_time)) w2
                          in if sleep_limit < wait_time then (Inl OverflowError, w3)
                             else fetch_loop net f url ps (Suc attempt)
                                    (emit (Sleep wait_time) w3))
                    else fetch_loop net f url ps (Suc attempt)
                           (emit (Print (AllAttemptsFailed (max_retries f) url)) w2)))
      else (Inr None, w))"
  by pat_completeness auto
termination
  by (relation "measure (\<lambda>(net, f, url, ps, attempt, w). nat (max_retries f - int attempt))") auto

definition fetch_with_retry ::
  "network \<Rightarrow> fetcher \<Rightarrow> string \<Rightarrow> (string \<times> string) list option \<Rightarrow> world
     \<Rightarrow> (pyexn + response option) \<times> world" where
  "fetch_with_retry net f url ps w = fetch_loop net f url ps 0 w"

text \<open>The projections of a trace the properties speak about.\<close>

definition io_events :: "event list \<Rightarrow> event list" where
  "io_events tr = filter (\<lambda>e. case e of Print m \<Rightarrow> False | _ \<Rightarrow> True) tr"



subsection \<open>validate_price_data\<close>

definition required_fields :: "string list" where
  "required_fields = [''usd'', ''usd_24h_change'', ''usd_market_cap'']"

text \<open>
  The inner loop \<open>for field in required_fields\<close> over one record: \<open>Inr True\<close> when
  it runs to its end, \<open>Inr False\<close> when it returns False from the method, \<open>Inl\<close> when
  \<open>field not in crypto_data\<close> raises.
\<close>

fun check_fields :: "string list \<Rightarrow> string \<Rightarrow> json \<Rightarrow> world \<Rightarrow> (pyexn + bool) \<times> world" where
  "check_fields [] crypto_id crypto_data w = (Inr True, w)"
| "check_fields (field # rest) crypto_id crypto_data w =
     (case py_in field crypto_data of
        Inl e \<Rightarrow> (Inl e, w)
      | Inr present \<Rightarrow>
          if \<not> present then (Inr False, emit (Print (MissingField field crypto_id)) w)
          else check_fields rest crypto_id crypto_data w)"

text \<open>The outer loop \<open>for crypto_id in expected_ids\<close> over the dict \<open>data\<close>.\<close>

fun check_ids :: "string list \<Rightarrow> (string \<times> json) list \<Rightarrow> world \<Rightarrow> (pyexn + bool) \<times> world" where
  "check_ids [] d w = (Inr True, w)"
| "check_ids (crypto_id # ids) d w =
     (case map_of d crypto_id of
        None \<Rightarrow> (Inr False, emit (Print (MissingData crypto_id)) w)
      | Some crypto_data \<Rightarrow>
          (case check_fields required_fields crypto_id crypto_data w of
             (Inl e, w') \<Rightarrow> (Inl e, w')
           | (Inr all_present, w') \<Rightarrow>
               if all_present then check_ids ids d w' else (Inr False, w')))"

fun validate_price_data :: "json \<Rightarrow> string list \<Rightarrow> world \<Rightarrow> (pyexn + bool) \<times> world" where
  "validate_price_data (JObj d) expected_ids w = check_ids expected_ids d w"
| "validate_price_data data expected_ids w = (Inr False, w)"

subsection \<open>fetch_crypto_prices\<close>

definition price_url :: string where
  "price_url = ''https://api.coingecko.com/api/v3/simple/price''"

definition price_params :: "string list \<Rightarrow> (string \<times> string) list" where
  "price_params crypto_ids =
     [(''ids'', join '','' crypto_ids), (''vs_currencies'', ''usd''),
      (''include_24hr_change'', ''true''), (''include_market_cap'', ''true'')]"

definition fetch_crypto_prices ::
  "network \<Rightarrow> fetcher \<Rightarrow> string list \<Rightarrow> world \<Rightarrow> (pyexn + json option) \<times> world" where
  "fetch_crypto_prices net f crypto_ids w =
     (case fetch_with_retry net f price_url (Some (price_params crypto_ids))
             (emit (Print (FetchingPrices (join '', '' crypto_ids))) w) of
        (Inl e, w1) \<Rightarrow> (Inl e, w1)
      | (Inr None, w1) \<Rightarrow> (Inr None, w1)
      | (Inr (Some response), w1) \<Rightarrow>
          if response_ok response then
            (case json_body response of
               DecodeError \<Rightarrow> (Inr None, emit (Print PriceParseFailed) w1)
             | ParseRaised e \<Rightarrow> (Inl e, w1)
             | Parsed data \<Rightarrow>
                 (case validate_price_data data crypto_ids w1 of
                    (Inl e, w2) \<Rightarrow> (Inl e, w2)
                  | (Inr valid, w2) \<Rightarrow>
                      if valid then (Inr (Some data), w2)
                      else (Inr None, emit (Print InvalidPriceData) w2)))
          else (Inr None, w1))"

subsection \<open>fetch_additional_market_data\<close>

text \<open>
  What the method takes from the Python runtime: \<open>str.lower\<close> and \<open>str.upper\<close>
  (Unicode case mappings), and whether a slice object is hashable (it is from
  Python 3.12 on, so that \<open>d[:100]\<close> on a dict raises \<open>KeyError\<close> there and
  \<open>TypeError\<close> before).
\<close>

record runtime =
  str_lower :: "string \<Rightarrow> string"
  str_upper :: "string \<Rightarrow> string"
  slices_hashable :: bool

text \<open>The dict the method returns.\<close>

record market_data =
  md_name :: json
  md_symbol :: string
  md_description :: string

text \<open>\<open>v.get(key, default)\<close>: only a dict has the method.\<close>

fun py_get :: "json \<Rightarrow> string \<Rightarrow> json \<Rightarrow> pyexn + json" where
  "py_get (JObj kvs) k dflt = Inr (case map_of kvs k of None \<Rightarrow> dflt | Some v \<Rightarrow> v)"
| "py_get v k dflt = Inl AttributeError"

text \<open>\<open>v.upper()\<close>: only a string has the method.\<close>

fun py_upper :: "runtime \<Rightarrow> json \<Rightarrow> pyexn + string" where
  "py_upper rt (JStr s) = Inr (str_upper rt s)"
| "py_upper rt v = Inl AttributeError"

text \<open>
  \<open>v[:100] + '...'\<close>: a string is cut to its first 100 characters; a list slice
  cannot be concatenated with a string; a dict is indexed by the slice object; nothing
  else can be subscripted.
\<close>

fun slice_dots :: "runtime \<Rightarrow> json \<Rightarrow> pyexn + string" where
  "slice_dots rt (JStr s) = Inr (take 100 s @ ''...'')"
| "slice_dots rt (JObj kvs) = Inl (if slices_hashable rt then KeyError else TypeError)"
| "slice_dots rt v = Inl TypeError"

text \<open>
  The conditional expression of the \<open>'description'\<close> entry: the condition
  \<open>data.get('description', {}).get('en')\<close> is evaluated first, then one branch.
\<close>

definition description_of :: "runtime \<Rightarrow> json \<Rightarrow> pyexn + string" where
  "description_of rt data =
     (case py_get data ''description'' (JObj []) of
        Inl e \<Rightarrow> Inl e
      | Inr d \<Rightarrow>
          (case py_get d ''en'' JNull of
             Inl e \<Rightarrow> Inl e
           | Inr en \<Rightarrow>
               if truthy en then
                 (case py_get data ''description'' (JObj []) of
                    Inl e \<Rightarrow> Inl e
                  | Inr d' \<Rightarrow>
                      (case py_get d' ''en'' (JStr []) of
                         Inl e \<Rightarrow> Inl e
                       | Inr en' \<Rightarrow> slice_dots rt en'))
               else Inr ''No description available''))"

text \<open>The dict display, its entries evaluated in order.\<close>

definition market_record :: "runtime \<Rightarrow> json \<Rightarrow> pyexn + market_data" where
  "market_record rt data =
     (case py_get data ''name'' (JStr ''Unknown'') of
        Inl e \<Rightarrow> Inl e
      | Inr nm \<Rightarrow>
          (case py_get data ''symbol'' (JStr []) of
             Inl e \<Rightarrow> Inl e
           | Inr sy \<Rightarrow>
               (case py_upper rt sy of
                  Inl e \<Rightarrow> Inl e
                | Inr su \<Rightarrow>
                    (case description_of rt data of
                       Inl e \<Rightarrow> Inl e
                     | Inr ds \<Rightarrow>
                         Inr \<lparr>md_name = nm, md_symbol = su, md_description = ds\<rparr>))))"

definition coins_url :: string where
  "coins_url = ''https://api.coingecko.com/api/v3/coins/''"

text \<open>
  \<open>except (json.JSONDecodeError, KeyError)\<close> catches the parse failure and a
  \<open>KeyError\<close> of the dict display; any other exception leaves the method.
\<close>

definition fetch_additional_market_data ::
  "network \<Rightarrow> fetcher \<Rightarrow> runtime \<Rightarrow> string \<Rightarrow> world
     \<Rightarrow> (pyexn + market_data option) \<times> world" where
  "fetch_additional_market_data net f rt crypto_symbol w =
     (case fetch_with_retry net f (coins_url @ str_lower rt crypto_symbol) None w of
        (Inl e, w1) \<Rightarrow> (Inl e, w1)
      | (Inr None, w1) \<Rightarrow> (Inr None, w1)
      | (Inr (Some response), w1) \<Rightarrow>
          if response_ok response then
            (case json_body response of
               DecodeError \<Rightarrow>
                 (Inr None, emit (Print (AdditionalParseFailed crypto_symbol)) w1)
             | ParseRaised e \<Rightarrow>
                 if e = KeyError
                 then (Inr None, emit (Print (AdditionalParseFailed crypto_symbol)) w1)
                 else (Inl e, w1)
             | Parsed data \<Rightarrow>
                 (case market_record rt data of
                    Inr md \<Rightarrow> (Inr (Some md), w1)
                  | Inl e \<Rightarrow>
                      if e = KeyError
                      then (Inr None, emit (Print (AdditionalParseFailed crypto_symbol)) w1)
                      else (Inl e, w1)))
          else (Inr None, w1))"

section \<open>The retry loop, step by step\<close>

text \<open>
  The loop equation is unfolded by hand, one attempt at a time, so it is not a
  simplification rule.
\<close>

declare fetch_loop.simps [simp del]


lemma io_events_simps:
  "io_events [] = []"
  "io_events (Request rq # tr) = Request rq # io_events tr"
  "io_events (Sleep s # tr) = Sleep s # io_events tr"
  "io_events (Print m # tr) = io_events tr"
  "io_events (tr @ tr') = io_events tr @ io_events tr'"
  by (simp_all add: io_events_def)

lemma world_update:
  "(w::world)\<lparr>calls := c, trace := t\<rparr> = \<lparr>calls = c, trace = t\<rparr>"
  "(w::world)\<lparr>trace := t\<rparr> = \<lparr>calls = calls w, trace = t\<rparr>"
  "(w::world)\<lparr>calls := c\<rparr> = \<lparr>calls = c, trace = trace w\<rparr>"
  by (cases w, simp)+

lemma fetch_loop_done:
  "\<not> int a < max_retries f \<Longrightarrow> fetch_loop net f url ps a w = (Inr None, w)"
  by (simp add: fetch_loop.simps)

lemma fetch_loop_success:
  "int a < max_retries f \<Longrightarrow> attempt_once (net (calls w) (the_request f url ps)) = Success r \<Longrightarrow>
   fetch_loop net f url ps a w =
     (Inr (Some r), \<lparr>calls = Suc (calls w), trace = trace w @ [Request (the_request f url ps)]\<rparr>)"
  by (subst fetch_loop.simps) (simp add: emit_def)

lemma fetch_loop_propagate:
  "int a < max_retries f \<Longrightarrow> attempt_once (net (calls w) (the_request f url ps)) = Propagate e \<Longrightarrow>
   fetch_loop net f url ps a w =
     (Inl e, \<lparr>calls = Suc (calls w), trace = trace w @ [Request (the_request f url ps)]\<rparr>)"
  by (subst fetch_loop.simps) (simp add: emit_def)

lemma backoff_fits: "a \<le> 33 \<Longrightarrow> (2::int) ^ a \<le> sleep_limit"
proof -
  assume "a \<le> 33"
  then have "(2::int) ^ a \<le> 2 ^ 33" by (intro power_increasing) simp_all
  also have "\<dots> \<le> sleep_limit" by (simp add: sleep_limit_def)
  finally show ?thesis .
qed

lemma backoff_overflows: "34 \<le> a \<Longrightarrow> sleep_limit < (2::int) ^ a"
proof -
  assume "34 \<le> a"
  have "sleep_limit < (2::int) ^ 34" by (simp add: sleep_limit_def)
  also from \<open>34 \<le> a\<close> have "\<dots> \<le> 2 ^ a" by (intro power_increasing) simp_all
  finally show ?thesis .
qed

lemma fetch_loop_retry:
  assumes "int a < max_retries f"
    and "attempt_once (net (calls w) (the_request f url ps)) = Retry c"
    and "int a < max_retries f - 1 \<longrightarrow> a \<le> 33"
  shows "\<exists>evs. fetch_loop net f url ps a w =
            fetch_loop net f url ps (Suc a) \<lparr>calls = Suc (calls w), trace = trace w @ evs\<rparr>
          \<and> io_events evs = Request (the_request f url ps) #
              (if int a < max_retries f - 1 then [Sleep (2 ^ a)] else [])"
proof (cases "int a < max_retries f - 1")
  case True
  let ?evs = "[Request (the_request f url ps), Print (AttemptFailed (a + 1) c),
               Print (RetryingIn (2 ^ a)), Sleep (2 ^ a)]"
  have "fetch_loop net f url ps a w =
          fetch_loop net f url ps (Suc a) \<lparr>calls = Suc (calls w), trace = trace w @ ?evs\<rparr>"
    using assms True backoff_fits[of a]
    by (subst fetch_loop.simps) (simp add: emit_def Let_def world_update)
  moreover have "io_events ?evs = Request (the_request f url ps) #
              (if int a < max_retries f - 1 then [Sleep (2 ^ a)] else [])"
    using True by (simp add: io_events_simps)
  ultimately show ?thesis by blast
next
  case False
  let ?evs = "[Request (the_request f url ps), Print (AttemptFailed (a + 1) c),
               Print (AllAttemptsFailed (max_retries f) url)]"
  have "fetch_loop net f url ps a w =
          fetch_loop net f url ps (Suc a) \<lparr>calls = Suc (calls w), trace = trace w @ ?evs\<rparr>"
    using assms False by (subst fetch_loop.simps) (simp add: emit_def Let_def world_update)
  moreover have "io_events ?evs = Request (the_request f url ps) #
              (if int a < max_retries f - 1 then [Sleep (2 ^ a)] else [])"
    using False by (simp add: io_events_simps)
  ultimately show ?thesis by blast
qed

lemma fetch_loop_overflow:
  assumes "int a < max_retries f - 1"
    and "attempt_once (net (calls w) (the_request f url ps)) = Retry c"
    and "34 \<le> a"
  shows "\<exists>evs. fetch_loop net f url ps a w =
            (Inl OverflowError, \<lparr>calls = Suc (calls w), trace = trace w @ evs\<rparr>)
          \<and> io_events evs = [Request (the_request f url ps)]"
proof -
  let ?evs = "[Request (the_request f url ps), Print (AttemptFailed (a + 1) c),
               Print (RetryingIn (2 ^ a))]"
  have "fetch_loop net f url ps a w =
          (Inl OverflowError, \<lparr>calls = Suc (calls w), trace = trace w @ ?evs\<rparr>)"
    using assms backoff_overflows[of a]
    by (subst fetch_loop.simps) (simp add: emit_def Let_def world_update)
  moreover have "io_events ?evs = [Request (the_request f url ps)]"
    by (simp add: io_events_simps)
  ultimately show ?thesis by blast
qed

text \<open>One failed attempt either goes on to the next one or ends in the overflow.\<close>

lemma fetch_loop_retry_cases:
  assumes "int a < max_retries f"
    and "attempt_once (net (calls w) (the_request f url ps)) = Retry c"
  shows "(\<exists>evs. fetch_loop net f url ps a w =
            fetch_loop net f url ps (Suc a) \<lparr>calls = Suc (calls w), trace = trace w @ evs\<rparr>)
       \<or> (\<exists>evs. fetch_loop net f url ps a w =
            (Inl OverflowError, \<lparr>calls = Suc (calls w), trace = trace w @ evs\<rparr>))"
proof (cases "int a < max_retries f - 1 \<and> 34 \<le> a")
  case True
  with fetch_loop_overflow[where net=net and w=w and f=f and a=a and url=url and ps=ps and c=c]
    assms(2)
  show ?thesis by blast
next
  case False
  then have "int a < max_retries f - 1 \<longrightarrow> a \<le> 33" by auto
  with fetch_loop_retry[where net=net and w=w and f=f and a=a and url=url and ps=ps and c=c]
    assms
  show ?thesis by blast
qed




lemma fetch_loop_returns_ok:
  "fst (fetch_loop net f url ps a w) = Inr (Some r) \<Longrightarrow> response_ok r"
proof (induction "nat (max_retries f) - a" arbitrary: a w)
  case 0
  then have "\<not> int a < max_retries f" by linarith
  with 0 show ?case by (simp add: fetch_loop_done)
next
  case (Suc m)
  let ?rq = "the_request f url ps"
  from Suc.hyps(2) have lt: "int a < max_retries f" by linarith
  show ?case
  proof (cases "attempt_once (net (calls w) ?rq)")
    case (Success r')
    with lt Suc.prems have "r' = r" by (simp add: fetch_loop_success)
    with Success show ?thesis
      by (cases "net (calls w) ?rq") (auto simp: response_ok_def split: if_splits)
  next
    case (Propagate e)
    with lt Suc.prems show ?thesis by (simp add: fetch_loop_propagate)
  next
    case (Retry c)
    have m: "m = nat (max_retries f) - Suc a" using Suc.hyps(2) by linarith
    from fetch_loop_retry_cases[where net=net and w=w and f=f and a=a and url=url and ps=ps
        and c=c, OF lt Retry]
    show ?thesis
    proof
      assume "\<exists>evs. fetch_loop net f url ps a w =
            fetch_loop net f url ps (Suc a) \<lparr>calls = Suc (calls w), trace = trace w @ evs\<rparr>"
      then obtain evs where
        step: "fetch_loop net f url ps a w =
            fetch_loop net f url ps (Suc a) \<lparr>calls = Suc (calls w), trace = trace w @ evs\<rparr>"
        by blast
      from Suc.hyps(1)[OF m] step Suc.prems show ?thesis by simp
    next
      assume "\<exists>evs. fetch_loop net f url ps a w =
            (Inl OverflowError, \<lparr>calls = Suc (calls w), trace = trace w @ evs\<rparr>)"
      with Suc.prems show ?thesis by auto
    qed
  qed
qed

lemma fetch_loop_bounded:
  "calls (snd (fetch_loop net f url ps a w)) \<le> calls w + (nat (max_retries f) - a)"
proof (induction "nat (max_retries f) - a" arbitrary: a w)
  case 0
  then have "\<not> int a < max_retries f" by linarith
  then show ?case by (simp add: fetch_loop_done)
next
  case (Suc m)
  let ?rq = "the_request f url ps"
  from Suc.hyps(2) have lt: "int a < max_retries f" by linarith
  show ?case
  proof (cases "attempt_once (net (calls w) ?rq)")
    case (Success r)
    with lt Suc.hyps(2) show ?thesis by (simp add: fetch_loop_success)
  next
    case (Propagate e)
    with lt Suc.hyps(2) show ?thesis by (simp add: fetch_loop_propagate)
  next
    case (Retry c)
    have m: "m = nat (max_retries f) - Suc a" using Suc.hyps(2) by linarith
    from fetch_loop_retry_cases[where net=net and w=w and f=f and a=a and url=url and ps=ps
        and c=c, OF lt Retry]
    show ?thesis
    proof
      assume "\<exists>evs. fetch_loop net f url ps a w =
            fetch_loop net f url ps (Suc a) \<lparr>calls = Suc (calls w), trace = trace w @ evs\<rparr>"
      then obtain evs where
        step: "fetch_loop net f url ps a w =
            fetch_loop net f url ps (Suc a) \<lparr>calls = Suc (calls w), trace = trace w @ evs\<rparr>"
        by blast
      from Suc.hyps(1)[OF m, of "\<lparr>calls = Suc (calls w), trace = trace w @ evs\<rparr>"] step lt
      show ?thesis by simp
    next
      assume "\<exists>evs. fetch_loop net f url ps a w =
            (Inl OverflowError, \<lparr>calls = Suc (calls w), trace = trace w @ evs\<rparr>)"
      with Suc.hyps(2) show ?thesis by auto
    qed
  qed
qed

lemma fetch_with_retry_bounded:
  "calls (snd (fetch_with_retry net f url ps w)) \<le> calls w + nat (max_retries f)"
  using fetch_loop_bounded[of net f url ps 0 w] by (simp add: fetch_with_retry_def)






section \<open>Properties of fetch_with_retry\<close>










text \<open>
  C10. A fetcher whose \<open>max_retries\<close> is zero or negative returns \<open>None\<close> from
  \<open>fetch_with_retry\<close> at once, for every url and parameters: the world is unchanged,
  so no request was made, nothing was slept and nothing printed.
\<close>

theorem fetch_with_retry_no_retries:
  "max_retries f \<le> 0 \<Longrightarrow> fetch_with_retry net f url ps w = (Inr None, w)"
  by (simp add: fetch_with_retry_def fetch_loop_done)

theorem fetch_with_retry_no_retries_witness:
  "fetch_with_retry (\<lambda>n rq. RaisedOther) \<lparr>timeout = 10, max_retries = 0\<rparr>
     ''https://example.org'' None \<lparr>calls = 0, trace = []\<rparr>
   = (Inr None, \<lparr>calls = 0, trace = []\<rparr>)"
  using fetch_with_retry_no_retries
    [of "\<lparr>timeout = 10, max_retries = 0\<rparr>" "\<lambda>n rq. RaisedOther"
        "''https://example.org''" None "\<lparr>calls = 0, trace = []\<rparr>"]
  by simp

section \<open>Properties of validate_price_data\<close>

text \<open>
  What a run of the two loops does to the world: it appends at most one printed line,
  and none when it runs to its end; the result and the line do not depend on the world.
\<close>

lemma check_fields_effect:
  "\<exists>b ms. (\<forall>w. check_fields fs cid cd w = (b, w\<lparr>trace := trace w @ map Print ms\<rparr>))
          \<and> length ms \<le> 1 \<and> (b = Inr True \<longrightarrow> ms = [])"
proof (induction fs)
  case Nil
  show ?case by (intro exI[of _ "Inr True"] exI[of _ "[]"]) simp
next
  case (Cons field rest)
  show ?case
  proof (cases "py_in field cd")
    case (Inl e)
    then show ?thesis by (intro exI[of _ "Inl e"] exI[of _ "[]"]) simp
  next
    case (Inr present)
    show ?thesis
    proof (cases present)
      case True
      with Inr Cons show ?thesis by simp
    next
      case False
      with Inr show ?thesis
        by (intro exI[of _ "Inr False"] exI[of _ "[MissingField field cid]"])
           (simp add: emit_def)
    qed
  qed
qed

lemma check_ids_effect:
  "\<exists>b ms. (\<forall>w. check_ids ids d w = (b, w\<lparr>trace := trace w @ map Print ms\<rparr>))
          \<and> length ms \<le> 1 \<and> (b = Inr True \<longrightarrow> ms = [])"
proof (induction ids)
  case Nil
  show ?case by (intro exI[of _ "Inr True"] exI[of _ "[]"]) simp
next
  case (Cons crypto_id ids)
  show ?case
  proof (cases "map_of d crypto_id")
    case None
    then show ?thesis
      by (intro exI[of _ "Inr False"] exI[of _ "[MissingData crypto_id]"]) (simp add: emit_def)
  next
    case (Some crypto_data)
    from check_fields_effect[of required_fields crypto_id crypto_data]
    obtain b ms where
      inner: "\<And>w. check_fields required_fields crypto_id crypto_data w
                    = (b, w\<lparr>trace := trace w @ map Print ms\<rparr>)"
      and len: "length ms \<le> 1" and quiet: "b = Inr True \<longrightarrow> ms = []"
      by blast
    show ?thesis
    proof (cases b)
      case (Inl e)
      with Some inner len show ?thesis
        by (intro exI[of _ "Inl e"] exI[of _ ms]) simp
    next
      case (Inr all_present)
      show ?thesis
      proof (cases all_present)
        case True
        with Inr quiet have "ms = []" by simp
        with Some inner Inr True Cons show ?thesis by simp
      next
        case False
        with Some inner Inr len show ?thesis
          by (intro exI[of _ "Inr False"] exI[of _ ms]) simp
      qed
    qed
  qed
qed

lemma validate_price_data_effect:
  "\<exists>b ms. (\<forall>w. validate_price_data data ids w = (b, w\<lparr>trace := trace w @ map Print ms\<rparr>))
          \<and> length ms \<le> 1 \<and> (b = Inr True \<longrightarrow> ms = [])"
proof (cases data)
  case (JObj d)
  with check_ids_effect[of ids d] show ?thesis by simp
qed (intro exI[of _ "Inr False"] exI[of _ "[]"], simp)+

lemma validate_price_data_true_quiet:
  assumes "fst (validate_price_data data ids w) = Inr True"
  shows "validate_price_data data ids w = (Inr True, w)"
proof -
  from validate_price_data_effect[of data ids] obtain b ms where
    run: "\<And>w. validate_price_data data ids w = (b, w\<lparr>trace := trace w @ map Print ms\<rparr>)"
    and quiet: "b = Inr True \<longrightarrow> ms = []"
    by blast
  from assms run[of w] have "b = Inr True" by simp
  with quiet run[of w] show ?thesis by simp
qed

lemma check_fields_on_object:
  "fst (check_fields fs cid (JObj kvs) w) = Inr (\<forall>fld\<in>set fs. map_of kvs fld \<noteq> None)"
  by (induction fs) auto

lemma check_fields_true_quiet:
  assumes "fst (check_fields fs cid cd w) = Inr True"
  shows "check_fields fs cid cd w = (Inr True, w)"
proof -
  from check_fields_effect[of fs cid cd] obtain b ms where
    run: "\<And>w. check_fields fs cid cd w = (b, w\<lparr>trace := trace w @ map Print ms\<rparr>)"
    and quiet: "b = Inr True \<longrightarrow> ms = []"
    by blast
  from assms run[of w] have "b = Inr True" by simp
  with quiet run[of w] show ?thesis by simp
qed

lemma validate_price_data_on_objects:
  assumes "\<forall>i\<in>set ids. \<forall>v. map_of d i = Some v \<longrightarrow> (\<exists>kvs. v = JObj kvs)"
  shows "fst (validate_price_data (JObj d) ids w) =
           Inr (\<forall>i\<in>set ids. \<exists>kvs. map_of d i = Some (JObj kvs)
                  \<and> (\<forall>fld\<in>set required_fields. map_of kvs fld \<noteq> None))"
  using assms
proof (induction ids arbitrary: w)
  case Nil
  show ?case by simp
next
  case (Cons i ids)
  show ?case
  proof (cases "map_of d i")
    case None
    then show ?thesis by simp
  next
    case (Some v)
    with Cons.prems obtain kvs where v: "v = JObj kvs" by auto
    let ?all = "\<forall>fld\<in>set required_fields. map_of kvs fld \<noteq> None"
    have inner: "fst (check_fields required_fields i (JObj kvs) w) = Inr ?all"
      by (rule check_fields_on_object)
    show ?thesis
    proof (cases ?all)
      case True
      with inner have "check_fields required_fields i (JObj kvs) w = (Inr True, w)"
        by (intro check_fields_true_quiet) simp
      moreover from Cons.prems
      have "fst (validate_price_data (JObj d) ids w) =
           Inr (\<forall>i\<in>set ids. \<exists>kvs. map_of d i = Some (JObj kvs)
                  \<and> (\<forall>fld\<in>set required_fields. map_of kvs fld \<noteq> None))"
        by (intro Cons.IH) simp
      ultimately show ?thesis using Some v True by simp
    next
      case False
      with inner obtain w' where "check_fields required_fields i (JObj kvs) w = (Inr False, w')"
        by (cases "check_fields required_fields i (JObj kvs) w") simp
      with Some v False show ?thesis by simp
    qed
  qed
qed

lemma validate_price_data_not_a_dict:
  "\<forall>d. data \<noteq> JObj d \<Longrightarrow> validate_price_data data ids w = (Inr False, w)"
  by (cases data) simp_all

lemma validate_price_data_examples:
  "fst (validate_price_data (JObj []) [''bitcoin''] w) = Inr False"
  "fst (validate_price_data (JObj [(''bitcoin'', JObj [(''usd'', JNum 1)])]) [''bitcoin''] w)
     = Inr False"
  "fst (validate_price_data
          (JObj [(''bitcoin'', JObj [(''usd'', JNum 1), (''usd_24h_change'', JNum 1),
                                     (''usd_market_cap'', JNum 1)])]) [''bitcoin''] w)
     = Inr True"
  by (simp_all add: required_fields_def)




text \<open>
  C4. The method is claimed to return True exactly when the payload is a dict, every
  expected id is a key, and every such record has the three fields. On a record that is
  a string the test \<open>field in crypto_data\<close> is a substring test: the payload
  \<open>{"bitcoin": "usd_24h_change usd_market_cap"}\<close> has no record with fields, and the
  method returns True.
\<close>

theorem validate_price_data_string_record:
  "validate_price_data (JObj [(''bitcoin'', JStr ''usd_24h_change usd_market_cap'')])
     [''bitcoin''] \<lparr>calls = 0, trace = []\<rparr>
   = (Inr True, \<lparr>calls = 0, trace = []\<rparr>)"
  by (simp add: required_fields_def)

text \<open>
  C7. The method is claimed to return a boolean for every payload, also where an
  expected id maps to a number. On \<open>{"bitcoin": 1}\<close> the test
  \<open>field in crypto_data\<close> raises \<open>TypeError\<close>, which leaves the method.
\<close>

theorem validate_price_data_number_record:
  "validate_price_data (JObj [(''bitcoin'', JNum 1)]) [''bitcoin''] \<lparr>calls = 0, trace = []\<rparr>
   = (Inl TypeError, \<lparr>calls = 0, trace = []\<rparr>)"
  by (simp add: required_fields_def)

section \<open>Properties of fetch_crypto_prices\<close>

lemma fetch_with_retry_returns_ok:
  "fetch_with_retry net f url ps w = (Inr (Some r), w1) \<Longrightarrow> response_ok r"
  using fetch_loop_returns_ok[of net f url ps 0 w r] by (simp add: fetch_with_retry_def)

lemmas run_fetch =
  fetch_with_retry_def fetch_loop.simps the_request_def emit_def raises_for_status_def
  sleep_limit_def Let_def world_update

text \<open>
  When the retry loop of \<open>fetch_crypto_prices\<close> ends without an exception, the
  method returns \<open>None\<close> in each of three cases: the loop gave no response,
  \<open>response.json()\<close> raised \<open>JSONDecodeError\<close>, or \<open>validate_price_data\<close>
  returned False on the parsed payload.
\<close>

lemma fetch_crypto_prices_failure:
  assumes "fetch_with_retry net f price_url (Some (price_params crypto_ids))
             (emit (Print (FetchingPrices (join '', '' crypto_ids))) w) = (Inr ro, w1)"
    and "ro = None
         \<or> (\<exists>r. ro = Some r \<and> json_body r = DecodeError)
         \<or> (\<exists>r data. ro = Some r \<and> json_body r = Parsed data
               \<and> fst (validate_price_data data crypto_ids w1) = Inr False)"
  shows "fst (fetch_crypto_prices net f crypto_ids w) = Inr None"
proof (cases ro)
  case None
  with assms(1) show ?thesis by (simp add: fetch_crypto_prices_def)
next
  case (Some r)
  with assms(1) have ok: "response_ok r" by (auto dest: fetch_with_retry_returns_ok)
  from Some assms(2) consider "json_body r = DecodeError"
    | data where "json_body r = Parsed data"
        "fst (validate_price_data data crypto_ids w1) = Inr False"
    by auto
  then show ?thesis
  proof cases
    case 1
    with Some assms(1) ok show ?thesis by (simp add: fetch_crypto_prices_def)
  next
    case 2
    then obtain w2 where "validate_price_data data crypto_ids w1 = (Inr False, w2)"
      by (cases "validate_price_data data crypto_ids w1") simp
    with 2 Some assms(1) ok show ?thesis by (simp add: fetch_crypto_prices_def)
  qed
qed

text \<open>
  C5. The method is claimed to return \<open>None\<close> for a parse failure and for a schema
  violation alike. On the body \<open>{"bitcoin": 1}\<close>, which lacks all three fields, the
  \<open>TypeError\<close> of \<open>validate_price_data\<close> is not caught and leaves
  \<open>fetch_crypto_prices\<close>. On a body for which \<open>response.json()\<close> raises an
  exception other than \<open>JSONDecodeError\<close> (\<open>ValueError\<close> for an integer of more than
  4300 digits), \<open>except json.JSONDecodeError\<close> does not catch it either.
\<close>

theorem fetch_crypto_prices_raises:
  "fst (fetch_crypto_prices
     (\<lambda>n rq. Responded \<lparr>status_code = 200, json_body = Parsed (JObj [(''bitcoin'', JNum 1)])\<rparr>)
     \<lparr>timeout = 10, max_retries = 3\<rparr> [''bitcoin''] \<lparr>calls = 0, trace = []\<rparr>)
   = Inl TypeError
   \<and> fst (fetch_crypto_prices
     (\<lambda>n rq. Responded \<lparr>status_code = 200, json_body = ParseRaised ValueError\<rparr>)
     \<lparr>timeout = 10, max_retries = 3\<rparr> [''bitcoin''] \<lparr>calls = 0, trace = []\<rparr>)
   = Inl ValueError"
  by (simp add: fetch_crypto_prices_def run_fetch response_ok_def required_fields_def)

text \<open>
  C6. When the retry loop gives a response whose body parses to a payload on which
  \<open>validate_price_data\<close> returns True for the requested ids, \<open>fetch_crypto_prices\<close>
  returns that payload itself, and does nothing after the loop. This holds for every
  list of ids, the non-empty ones included.
\<close>

theorem fetch_crypto_prices_round_trip:
  assumes "fetch_with_retry net f price_url (Some (price_params crypto_ids))
             (emit (Print (FetchingPrices (join '', '' crypto_ids))) w) = (Inr (Some r), w1)"
    and "json_body r = Parsed data"
    and "fst (validate_price_data data crypto_ids w1) = Inr True"
  shows "fetch_crypto_prices net f crypto_ids w = (Inr (Some data), w1)"
proof -
  from assms(1) have ok: "response_ok r" by (rule fetch_with_retry_returns_ok)
  from assms(3) have "validate_price_data data crypto_ids w1 = (Inr True, w1)"
    by (rule validate_price_data_true_quiet)
  with assms(1,2) ok show ?thesis by (simp add: fetch_crypto_prices_def)
qed

theorem fetch_crypto_prices_round_trip_witness:
  "fst (fetch_crypto_prices
     (\<lambda>n rq. if n = 0 then RaisedRequestException ''timed out''
        else Responded \<lparr>status_code = 200,
          json_body = Parsed (JObj
            [(''bitcoin'', JObj [(''usd'', JNum 1), (''usd_24h_change'', JNum 1),
                                 (''usd_market_cap'', JNum 1)]),
             (''ethereum'', JObj [(''usd'', JNum 2), (''usd_24h_change'', JNum 0),
                                  (''usd_market_cap'', JNum 3)])])\<rparr>)
     \<lparr>timeout = 10, max_retries = 3\<rparr> [''bitcoin'', ''ethereum''] \<lparr>calls = 0, trace = []\<rparr>)
   = Inr (Some (JObj
            [(''bitcoin'', JObj [(''usd'', JNum 1), (''usd_24h_change'', JNum 1),
                                 (''usd_market_cap'', JNum 1)]),
             (''ethereum'', JObj [(''usd'', JNum 2), (''usd_24h_change'', JNum 0),
                                  (''usd_market_cap'', JNum 3)])]))"
proof -
  let ?d = "JObj
            [(''bitcoin'', JObj [(''usd'', JNum 1), (''usd_24h_change'', JNum 1),
                                 (''usd_market_cap'', JNum 1)]),
             (''ethereum'', JObj [(''usd'', JNum 2), (''usd_24h_change'', JNum 0),
                                  (''usd_market_cap'', JNum 3)])]"
  let ?r = "\<lparr>status_code = 200, json_body = Parsed ?d\<rparr>"
  let ?net = "\<lambda>(n::nat) (rq::request). if n = 0 then RaisedRequestException ''timed out''
        else Responded ?r"
  let ?f = "\<lparr>timeout = 10, max_retries = 3\<rparr>"
  let ?ids = "[''bitcoin'', ''ethereum'']"
  let ?w = "emit (Print (FetchingPrices (join '', '' ?ids))) \<lparr>calls = 0, trace = []\<rparr>"
  obtain w1 where
    run: "fetch_with_retry ?net ?f price_url (Some (price_params ?ids)) ?w = (Inr (Some ?r), w1)"
    by (simp add: run_fetch)
  have body: "json_body ?r = Parsed ?d" by simp
  have valid: "fst (validate_price_data ?d ?ids w1) = Inr True"
    by (simp add: required_fields_def)
  from fetch_crypto_prices_round_trip[OF run body valid] show ?thesis by simp
qed

section \<open>Properties of fetch_additional_market_data\<close>

text \<open>
  On a payload that is a dict whose \<open>symbol\<close> is absent or a string, and whose
  \<open>description\<close> is absent or a dict with no \<open>en\<close> entry or one that counts as
  false, the method returns a dict whose description is the fallback string.
\<close>

lemma fetch_additional_market_data_fallback:
  assumes "fetch_with_retry net f (coins_url @ str_lower rt crypto_symbol) None w
             = (Inr (Some r), w1)"
    and "json_body r = Parsed (JObj kvs)"
    and "map_of kvs ''symbol'' = None \<or> (\<exists>s. map_of kvs ''symbol'' = Some (JStr s))"
    and "map_of kvs ''description'' = None
         \<or> (\<exists>d. map_of kvs ''description'' = Some (JObj d)
               \<and> (map_of d ''en'' = None \<or> (\<exists>en. map_of d ''en'' = Some en \<and> \<not> truthy en)))"
  shows "\<exists>md. fetch_additional_market_data net f rt crypto_symbol w = (Inr (Some md), w1)
           \<and> md_description md = ''No description available''"
proof -
  from assms(1) have ok: "response_ok r" by (rule fetch_with_retry_returns_ok)
  from assms(4) have "description_of rt (JObj kvs) = Inr ''No description available''"
    by (auto simp: description_of_def)
  moreover from assms(3) obtain su where
    "(case py_get (JObj kvs) ''symbol'' (JStr []) of Inl e \<Rightarrow> Inl e | Inr sy \<Rightarrow> py_upper rt sy)
       = Inr su"
    by auto
  ultimately obtain md where "market_record rt (JObj kvs) = Inr md"
    and "md_description md = ''No description available''"
    by (auto simp: market_record_def split: sum.splits)
  with assms(1,2) ok show ?thesis by (simp add: fetch_additional_market_data_def)
qed

text \<open>
  C9. The method is claimed to return a dict with the fallback description whenever the
  body parses and the description is absent. On the body \<open>{"symbol": null}\<close>, which has
  no description, \<open>data.get('symbol', '').upper()\<close> raises \<open>AttributeError\<close>; on
  \<open>{"description": null}\<close> it is \<open>data.get('description', {}).get('en')\<close> that
  raises it. Neither is caught by \<open>except (json.JSONDecodeError, KeyError)\<close>.
\<close>

theorem fetch_additional_market_data_null_metadata:
  "fst (fetch_additional_market_data
     (\<lambda>n rq. Responded \<lparr>status_code = 200, json_body = Parsed (JObj [(''symbol'', JNull)])\<rparr>)
     \<lparr>timeout = 10, max_retries = 3\<rparr> rt ''bitcoin'' \<lparr>calls = 0, trace = []\<rparr>)
   = Inl AttributeError
   \<and> fst (fetch_additional_market_data
     (\<lambda>n rq. Responded \<lparr>status_code = 200,
                json_body = Parsed (JObj [(''description'', JNull)])\<rparr>)
     \<lparr>timeout = 10, max_retries = 3\<rparr> rt ''bitcoin'' \<lparr>calls = 0, trace = []\<rparr>)
   = Inl AttributeError"
  by (simp add: fetch_additional_market_data_def run_fetch response_ok_def market_record_def
      description_of_def)

end
